theory Spec2Isabelle
  imports Main "HOL-Library.AList"
begin

section \<open>Values and errors\<close>

text \<open>
  Python objects that memory, tools and the language model exchange. \<open>PyNone\<close> is
  Python's \<open>None\<close>; the other constructors cover the shapes this program handles
  (strings, integers and lists of objects).
\<close>

datatype pyval = PyNone | PyStr string | PyInt int | PyList "pyval list"

text \<open>
  Exceptions are values. \<open>KeyError\<close> is what \<open>KGToolbox.call\<close> raises,
  \<open>NetworkXError\<close> is what the graph library raises, \<open>Exception\<close> stands for
  whatever a tool or a language model raises on its own.
\<close>

datatype error = KeyError string | NetworkXError string | Exception string

section \<open>KnowledgeMemory\<close>

text \<open>
  The dataclass has one field, \<open>store\<close>, a Python dict. A dict keeps its keys unique
  and in insertion order; it is an association list read with \<open>map_of\<close> and written
  with \<open>AList.update\<close> (replace in place, or append when the key is new).
\<close>

record KnowledgeMemory =
  store :: "(string \<times> pyval) list"

text \<open>\<open>self.store.get(key)\<close>: the stored value, or \<open>None\<close> when the key is missing.\<close>

definition read :: "KnowledgeMemory \<Rightarrow> string \<Rightarrow> pyval" where
  "read m key = (case map_of (store m) key of None \<Rightarrow> PyNone | Some v \<Rightarrow> v)"

text \<open>\<open>self.store[key] = value\<close>.\<close>

definition write_memory :: "KnowledgeMemory \<Rightarrow> string \<Rightarrow> pyval \<Rightarrow> KnowledgeMemory" where
  "write_memory m key v = m\<lparr>store := AList.update key v (store m)\<rparr>"

section \<open>The directed graph of networkx\<close>

text \<open>
  \<open>KGExecutor\<close> keeps a \<open>networkx.DiGraph\<close>. The library is not part of the
  repository; the two methods the executor calls are modelled as the library defines them.
  A \<open>DiGraph\<close> is its successor adjacency \<open>_succ\<close>: a dict from every node to the dict
  of its successors, each successor carrying the attribute dict of the edge. A node is in
  the graph exactly when it is a key of \<open>_succ\<close>.

  \<^item> \<open>add_edge(u, v, **attr)\<close> adds \<open>u\<close> and then \<open>v\<close> as nodes when they are not
    keys of \<open>_succ\<close>, takes the attribute dict already stored for the edge (a new empty
    one when there is no such edge), updates it with \<open>attr\<close> and stores it at
    \<open>_succ[u][v]\<close>.
  \<^item> \<open>successors(n)\<close> iterates over the keys of \<open>_succ[n]\<close> and raises
    \<open>NetworkXError\<close> when \<open>n\<close> is not a key of \<open>_succ\<close>.
\<close>

type_synonym attrs = "(string \<times> string) list"

type_synonym DiGraph = "(string \<times> (string \<times> attrs) list) list"

definition has_node :: "DiGraph \<Rightarrow> string \<Rightarrow> bool" where
  "has_node g n = (map_of g n \<noteq> None)"

definition add_node_if_absent :: "DiGraph \<Rightarrow> string \<Rightarrow> DiGraph" where
  "add_node_if_absent g n = (if has_node g n then g else g @ [(n, [])])"

definition add_edge :: "DiGraph \<Rightarrow> string \<Rightarrow> string \<Rightarrow> attrs \<Rightarrow> DiGraph" where
  "add_edge g u v attr =
     (let g1 = add_node_if_absent g u;
          g2 = add_node_if_absent g1 v;
          adj_u = (case map_of g2 u of None \<Rightarrow> [] | Some a \<Rightarrow> a);
          datadict = (case map_of adj_u v of None \<Rightarrow> [] | Some d \<Rightarrow> d);
          datadict' = fold (\<lambda>(k, x). AList.update k x) attr datadict
      in AList.update u (AList.update v datadict' adj_u) g2)"

definition successors :: "DiGraph \<Rightarrow> string \<Rightarrow> error + string list" where
  "successors g n =
     (case map_of g n of
        None \<Rightarrow> Inl (NetworkXError (''The node '' @ n @ '' is not in the digraph.''))
      | Some adj_n \<Rightarrow> Inr (map fst adj_n))"

text \<open>The predicate stored on the edge \<open>u \<rightarrow> v\<close>, when there is such an edge.\<close>

definition edge_predicate :: "DiGraph \<Rightarrow> string \<Rightarrow> string \<Rightarrow> string option" where
  "edge_predicate g u v =
     (case map_of g u of
        None \<Rightarrow> None
      | Some adj_u \<Rightarrow> (case map_of adj_u v of None \<Rightarrow> None | Some d \<Rightarrow> map_of d ''predicate''))"

section \<open>KGExecutor\<close>

record KGExecutor =
  graph :: DiGraph

text \<open>
  \<open>self.graph = graph or nx.DiGraph()\<close>: a graph without nodes is falsy in Python, so
  it is replaced by a new empty graph, like a missing one.
\<close>

definition KGExecutor_init :: "DiGraph option \<Rightarrow> KGExecutor" where
  "KGExecutor_init g =
     (case g of None \<Rightarrow> \<lparr>graph = []\<rparr> | Some g' \<Rightarrow> (if g' = [] then \<lparr>graph = []\<rparr> else \<lparr>graph = g'\<rparr>))"

text \<open>
  The loop \<open>for s, p, o in triples: self.graph.add_edge(s, o, predicate=p)\<close>; the
  object \<open>o\<close> of a triple is written \<open>ob\<close>.
\<close>

fun load_triples :: "KGExecutor \<Rightarrow> (string \<times> string \<times> string) list \<Rightarrow> KGExecutor" where
  "load_triples e [] = e"
| "load_triples e ((s, p, ob) # triples) =
     load_triples (e\<lparr>graph := add_edge (graph e) s ob [(''predicate'', p)]\<rparr>) triples"

text \<open>
  A Python set of node names is a duplicate-free list; \<open>S.update(xs)\<close> is
  \<open>List.union xs S\<close>. The order in which Python iterates over a set is not specified, so
  the theorems speak about \<open>set\<close> of the result only.

  The inner loop \<open>for n in frontier: next_frontier.update(self.graph.successors(n))\<close>
  stops at the first node for which \<open>successors\<close> raises.
\<close>

fun expand_frontier :: "DiGraph \<Rightarrow> string list \<Rightarrow> string list \<Rightarrow> error + string list" where
  "expand_frontier g [] next_frontier = Inr next_frontier"
| "expand_frontier g (n # frontier) next_frontier =
     (case successors g n of
        Inl err \<Rightarrow> Inl err
      | Inr succs \<Rightarrow> expand_frontier g frontier (List.union succs next_frontier))"

text \<open>
  The outer loop \<open>for _ in range(depth)\<close>; the first argument counts the rounds that
  are left.
\<close>

fun layers :: "DiGraph \<Rightarrow> nat \<Rightarrow> string list \<Rightarrow> string list \<Rightarrow> error + string list" where
  "layers g 0 neighbors frontier = Inr neighbors"
| "layers g (Suc k) neighbors frontier =
     (case expand_frontier g frontier [] of
        Inl err \<Rightarrow> Inl err
      | Inr next_frontier \<Rightarrow> layers g k (List.union next_frontier neighbors) next_frontier)"

text \<open>\<open>range(depth)\<close> is empty for a negative \<open>depth\<close>, hence \<open>nat depth\<close> rounds.\<close>

definition query_neighbors :: "KGExecutor \<Rightarrow> string \<Rightarrow> int \<Rightarrow> error + string list" where
  "query_neighbors e node depth = layers (graph e) (nat depth) [] [node]"

definition neighbor_tool :: "KGExecutor \<Rightarrow> string \<Rightarrow> int \<Rightarrow> error + string list" where
  "neighbor_tool e node depth = query_neighbors e node depth"

section \<open>KGToolbox\<close>

text \<open>
  A tool is a callable: it takes the positional and the keyword arguments and returns a
  value or raises. It is a function of its arguments; a registered object that cannot be
  called is a tool that always raises.
\<close>

type_synonym tool = "pyval list \<Rightarrow> (string \<times> pyval) list \<Rightarrow> error + pyval"

record KGToolbox =
  tools :: "(string \<times> tool) list"

definition register :: "KGToolbox \<Rightarrow> string \<Rightarrow> tool \<Rightarrow> KGToolbox" where
  "register tb name fn = tb\<lparr>tools := AList.update name fn (tools tb)\<rparr>"

definition call :: "KGToolbox \<Rightarrow> string \<Rightarrow> pyval list \<Rightarrow> (string \<times> pyval) list \<Rightarrow> error + pyval" where
  "call tb name args kwargs =
     (case map_of (tools tb) name of
        None \<Rightarrow> Inl (KeyError (''Tool '' @ name @ '' not registered''))
      | Some fn \<Rightarrow> fn args kwargs)"

section \<open>KGAgent\<close>

text \<open>
  \<open>llm\<close> is any object; the agent only asks whether it has a \<open>generate\<close> attribute
  and, if so, calls it with the prompt. The field holds that method, or \<open>None\<close> for an
  object without it.
\<close>

record KGAgent =
  llm :: "(string \<Rightarrow> error + pyval) option"
  toolbox :: KGToolbox
  executor :: KGExecutor
  memory :: KnowledgeMemory

text \<open>
  \<open>self.memory = memory or KnowledgeMemory()\<close>: an instance of the dataclass is always
  truthy, so a memory that is passed is kept.
\<close>

definition KGAgent_init ::
  "(string \<Rightarrow> error + pyval) option \<Rightarrow> KGToolbox \<Rightarrow> KGExecutor \<Rightarrow> KnowledgeMemory option \<Rightarrow> KGAgent" where
  "KGAgent_init l tb ex mem =
     \<lparr>llm = l, toolbox = tb, executor = ex,
      memory = (case mem of None \<Rightarrow> \<lparr>store = []\<rparr> | Some m \<Rightarrow> m)\<rparr>"

text \<open>The dict \<open>{"raw": raw_output, "steps": []}\<close>.\<close>

record Plan =
  raw :: pyval
  steps :: "pyval list"

definition plan :: "KGAgent \<Rightarrow> string \<Rightarrow> error + Plan" where
  "plan a question =
     (let prompt = ''Plan steps for: '' @ question
      in case llm a of
           Some generate \<Rightarrow>
             (case generate prompt of
                Inl err \<Rightarrow> Inl err
              | Inr raw_output \<Rightarrow> Inr \<lparr>raw = raw_output, steps = []\<rparr>)
         | None \<Rightarrow> Inr \<lparr>raw = PyStr ''[]'', steps = []\<rparr>)"

text \<open>
  A selector sees the agent (and so its memory) and the plan, and answers with a tool
  name or with \<open>None\<close> to stop; it changes nothing. \<open>select_tool\<close> is the one
  the class ships.
\<close>

type_synonym selector = "KGAgent \<Rightarrow> Plan \<Rightarrow> string option"

definition select_tool :: selector where
  "select_tool a p = None"

definition execute_tool :: "KGAgent \<Rightarrow> string \<Rightarrow> pyval list \<Rightarrow> (string \<times> pyval) list \<Rightarrow> error + pyval" where
  "execute_tool a tool_name args kwargs = call (toolbox a) tool_name args kwargs"

definition update_memory :: "KGAgent \<Rightarrow> string \<Rightarrow> pyval \<Rightarrow> KGAgent" where
  "update_memory a key v = a\<lparr>memory := write_memory (memory a) key v\<rparr>"

text \<open>The decimal numeral that an f-string prints for a natural number.\<close>

fun str_nat :: "nat \<Rightarrow> string" where
  "str_nat n =
     (if n < 10 then [''0123456789'' ! n]
      else str_nat (n div 10) @ [''0123456789'' ! (n mod 10)])"

declare str_nat.simps [simp del]

text \<open>
  The state of \<open>run\<close> while it loops: the agent (its memory is written in place), the
  local variable \<open>result\<close>, and a ghost list of the tool invocations made so far
  (tool name and positional arguments), which the source does not keep and which only
  serves to count them.
\<close>

record run_state =
  agent :: KGAgent
  result :: pyval
  invocations :: "(string \<times> pyval list) list"

text \<open>
  The loop \<open>for i in range(max_iterations)\<close> over the list of its indices. The first
  component of the result is the exception that left the loop, if any; the state is
  returned in both cases, since what was written to memory before an exception stays
  written.
\<close>

fun run_loop :: "selector \<Rightarrow> Plan \<Rightarrow> string \<Rightarrow> nat list \<Rightarrow> run_state \<Rightarrow> error option \<times> run_state" where
  "run_loop sel p question [] st = (None, st)"
| "run_loop sel p question (i # is) st =
     (case sel (agent st) p of
        None \<Rightarrow> (None, st)
      | Some tool_name \<Rightarrow>
          (let st1 = st\<lparr>invocations := invocations st @ [(tool_name, [PyStr question])]\<rparr>
           in case execute_tool (agent st1) tool_name [PyStr question] [] of
                Inl err \<Rightarrow> (Some err, st1)
              | Inr tool_out \<Rightarrow>
                  run_loop sel p question is
                    (st1\<lparr>agent := update_memory (agent st1) (''step_'' @ str_nat i) tool_out,
                         result := tool_out\<rparr>)))"

text \<open>
  \<open>run\<close> with the selector as a parameter, as a subclass overriding
  \<open>select_tool\<close> provides it. It returns what \<open>run\<close> returns or raises, the agent
  afterwards, and the ghost list of invocations.
\<close>

definition run_with ::
  "selector \<Rightarrow> KGAgent \<Rightarrow> string \<Rightarrow> int \<Rightarrow> (error + pyval) \<times> KGAgent \<times> (string \<times> pyval list) list" where
  "run_with sel a question max_iterations =
     (case plan a question of
        Inl err \<Rightarrow> (Inl err, a, [])
      | Inr p \<Rightarrow>
          (case run_loop sel p question [0..<nat max_iterations]
                  \<lparr>agent = a, result = PyNone, invocations = []\<rparr> of
             (Some err, st) \<Rightarrow> (Inl err, agent st, invocations st)
           | (None, st) \<Rightarrow> (Inr (result st), agent st, invocations st)))"

definition run ::
  "KGAgent \<Rightarrow> string \<Rightarrow> int \<Rightarrow> (error + pyval) \<times> KGAgent \<times> (string \<times> pyval list) list" where
  "run a question max_iterations = run_with select_tool a question max_iterations"

section \<open>Auxiliary notions for the statements\<close>

text \<open>
  The keys of a Python dict are unique. For the association lists of the graph this is an
  invariant: no node is listed twice, and no successor is listed twice under one node.
\<close>

definition wf_graph :: "DiGraph \<Rightarrow> bool" where
  "wf_graph g = (distinct (map fst g) \<and> list_all (\<lambda>(n, adj_n). distinct (map fst adj_n)) g)"

text \<open>
  The successor dict \<open>_succ[u]\<close> and the attribute dict of the edge \<open>u \<rightarrow> v\<close>, both
  empty when there is none.
\<close>

definition adj_of :: "DiGraph \<Rightarrow> string \<Rightarrow> (string \<times> attrs) list" where
  "adj_of g u = (case map_of g u of None \<Rightarrow> [] | Some a \<Rightarrow> a)"

definition data_of :: "DiGraph \<Rightarrow> string \<Rightarrow> string \<Rightarrow> attrs" where
  "data_of g u v = (case map_of (adj_of g u) v of None \<Rightarrow> [] | Some d \<Rightarrow> d)"

section \<open>Association lists\<close>

lemma map_of_absent: "k \<notin> fst ` set al \<Longrightarrow> map_of al k = None"
  by (simp add: map_of_eq_None_iff)

lemma update_present_keys:
  "k \<in> fst ` set al \<Longrightarrow> map fst (AList.update k v al) = map fst al"
  by (induction al) auto

lemma count_list_distinct: "distinct xs \<Longrightarrow> x \<in> set xs \<Longrightarrow> count_list xs x = 1"
  by (induction xs) (auto simp add: count_list_0_iff)

section \<open>Memory\<close>

text \<open>
  Claim C6. For every key and every value, \<open>write(key, value)\<close> followed by
  \<open>read(key)\<close> returns exactly the value written; and for every key that is not in the
  store (it was never written), \<open>read(key)\<close> returns \<open>None\<close>, the absent-marker.
  \<open>read\<close> has no branch that raises.
\<close>

theorem memory_roundtrip:
  "read (write_memory m key v) key = v \<and>
   (key' \<notin> fst ` set (store m) \<longrightarrow> read m key' = PyNone)"
  by (simp add: read_def write_memory_def update_conv' map_of_absent)

theorem memory_roundtrip_witness:
  "read (write_memory \<lparr>store = [(''a'', PyInt 1)]\<rparr> ''k'' (PyStr ''v'')) ''k'' = PyStr ''v'' \<and>
   ''z'' \<notin> fst ` set (store \<lparr>store = [(''a'', PyInt 1)]\<rparr>) \<and>
   read \<lparr>store = [(''a'', PyInt 1)]\<rparr> ''z'' = PyNone"
  using memory_roundtrip [of "\<lparr>store = [(''a'', PyInt 1)]\<rparr>" "''k''" "PyStr ''v''" "''z''"]
  by simp

text \<open>
  Claim C10. The absent-marker of \<open>read\<close> is the value \<open>None\<close>: after
  \<open>write(key, None)\<close>, \<open>read(key)\<close> returns \<open>None\<close>, which is also what
  \<open>read(key)\<close> returns when the key was never written. Through \<open>read\<close> a stored
  \<open>None\<close> and a missing key look the same.
\<close>

theorem stored_none_indistinguishable:
  "read (write_memory m key PyNone) key = PyNone \<and>
   (key \<notin> fst ` set (store m) \<longrightarrow> read (write_memory m key PyNone) key = read m key)"
  by (simp add: read_def write_memory_def update_conv' map_of_absent)

text \<open>
  In the witness the two stores differ (the key is there after the write), and \<open>read\<close>
  returns the same.
\<close>

theorem stored_none_indistinguishable_witness:
  "''k'' \<notin> fst ` set (store \<lparr>store = [(''a'', PyInt 1)]\<rparr>) \<and>
   read (write_memory \<lparr>store = [(''a'', PyInt 1)]\<rparr> ''k'' PyNone) ''k'' =
     read \<lparr>store = [(''a'', PyInt 1)]\<rparr> ''k'' \<and>
   store (write_memory \<lparr>store = [(''a'', PyInt 1)]\<rparr> ''k'' PyNone) \<noteq>
     store \<lparr>store = [(''a'', PyInt 1)]\<rparr>"
  using stored_none_indistinguishable [of "\<lparr>store = [(''a'', PyInt 1)]\<rparr>" "''k''"]
  by (simp add: write_memory_def read_def)

section \<open>Graph queries\<close>

text \<open>
  Claim C7. For every node \<open>n\<close>, in the graph or not, and every graph,
  \<open>query_neighbors(n, 0)\<close> returns the empty result: the loop body never runs.
\<close>

theorem depth_zero_empty: "query_neighbors e n 0 = Inr []"
  by (simp add: query_neighbors_def)

lemma loaded_example_graph:
  "graph (load_triples \<lparr>graph = []\<rparr> [(''A'', ''r1'', ''B''), (''B'', ''r2'', ''C'')]) =
     [(''A'', [(''B'', [(''predicate'', ''r1'')])]),
      (''B'', [(''C'', [(''predicate'', ''r2'')])]),
      (''C'', [])]"
  by (simp add: add_edge_def add_node_if_absent_def has_node_def)

lemma successors_absent:
  "\<not> has_node g n \<Longrightarrow>
     successors g n = Inl (NetworkXError (''The node '' @ n @ '' is not in the digraph.''))"
  by (simp add: has_node_def successors_def)

lemma layers_absent_start:
  "\<not> has_node g n \<Longrightarrow>
     layers g (Suc k) acc [n] = Inl (NetworkXError (''The node '' @ n @ '' is not in the digraph.''))"
  by (simp add: successors_absent)

text \<open>
  Claim C1, as the specification states it: for every node \<open>n\<close> that is not in the
  graph and every depth \<open>\<ge> 0\<close>, \<open>query_neighbors(n, depth)\<close> returns an empty result
  and raises no error. This fails for every depth \<open>\<ge> 1\<close>: the first round asks the
  graph for the successors of the start node, and \<open>successors\<close> raises for a node that
  the graph does not have. After loading \<open>A \<rightarrow> B \<rightarrow> C\<close>, the query for the unknown node
  \<open>Z\<close> with depth 1 ends in \<open>NetworkXError\<close>.
\<close>

theorem missing_node_query_raises:
  "\<not> has_node (graph (load_triples \<lparr>graph = []\<rparr> [(''A'', ''r1'', ''B''), (''B'', ''r2'', ''C'')])) ''Z'' \<and>
   query_neighbors (load_triples \<lparr>graph = []\<rparr> [(''A'', ''r1'', ''B''), (''B'', ''r2'', ''C'')]) ''Z'' 1 =
     Inl (NetworkXError ''The node Z is not in the digraph.'')"
  by (simp only: query_neighbors_def loaded_example_graph)
     (simp add: successors_def has_node_def)

text \<open>
  Claim C1, amended: for every node \<open>n\<close> that is not in the graph,
  \<open>query_neighbors(n, depth)\<close> returns the empty result when \<open>depth \<le> 0\<close> and raises
  \<open>NetworkXError\<close>, naming the node, for every \<open>depth \<ge> 1\<close>.
\<close>

theorem missing_node_query:
  assumes "\<not> has_node (graph e) n"
  shows "query_neighbors e n depth =
           (if depth \<le> 0 then Inr []
            else Inl (NetworkXError (''The node '' @ n @ '' is not in the digraph.'')))"
proof (cases "depth \<le> 0")
  case True
  then show ?thesis by (simp add: query_neighbors_def)
next
  case False
  then obtain k where "nat depth = Suc k"
    by (metis not_le zero_less_nat_eq gr0_implies_Suc)
  have "layers (graph e) (Suc k) [] [n] =
          Inl (NetworkXError (''The node '' @ n @ '' is not in the digraph.''))"
    using assms by (rule layers_absent_start)
  with False \<open>nat depth = Suc k\<close> show ?thesis
    by (simp only: query_neighbors_def if_False)
qed

theorem missing_node_query_witness:
  "\<not> has_node (graph \<lparr>graph = [(''A'', [])]\<rparr>) ''Z'' \<and>
   query_neighbors \<lparr>graph = [(''A'', [])]\<rparr> ''Z'' 0 = Inr [] \<and>
   query_neighbors \<lparr>graph = [(''A'', [])]\<rparr> ''Z'' 2 =
     Inl (NetworkXError ''The node Z is not in the digraph.'')"
proof -
  have h: "\<not> has_node (graph \<lparr>graph = [(''A'', [])]\<rparr>) ''Z''"
    by (simp add: has_node_def)
  show ?thesis
    using h missing_node_query [OF h, of 0] missing_node_query [OF h, of 2] by simp
qed

text \<open>
  Claim C2. After loading exactly the triples \<open>(A, r1, B)\<close> and \<open>(B, r2, C)\<close> into
  an empty graph, \<open>query_neighbors(A, 1)\<close> returns exactly \<open>B\<close>, and
  \<open>query_neighbors(A, 2)\<close> returns exactly \<open>B\<close> and \<open>C\<close>, each once: the union of
  the frontiers of hop 1 and hop 2, not the last frontier alone.
\<close>

theorem two_triples_neighbors:
  "query_neighbors (load_triples \<lparr>graph = []\<rparr> [(''A'', ''r1'', ''B''), (''B'', ''r2'', ''C'')]) ''A'' 1 = Inr [''B''] \<and>
   (\<exists>ns. query_neighbors (load_triples \<lparr>graph = []\<rparr> [(''A'', ''r1'', ''B''), (''B'', ''r2'', ''C'')]) ''A'' 2 = Inr ns
        \<and> distinct ns \<and> set ns = {''B'', ''C''})"
  by (simp only: query_neighbors_def loaded_example_graph)
     (auto simp add: successors_def List.union_def numeral_2_eq_2)

section \<open>Loading triples\<close>

lemma has_node_keys: "has_node g n = (n \<in> fst ` set g)"
  by (simp add: has_node_def map_of_eq_None_iff)

lemma has_node_add_node: "has_node (add_node_if_absent g n) m = (has_node g m \<or> m = n)"
  by (auto simp add: add_node_if_absent_def has_node_keys)

lemma add_node_present: "has_node g n \<Longrightarrow> add_node_if_absent g n = g"
  by (simp add: add_node_if_absent_def)

lemma adj_of_add_node: "adj_of (add_node_if_absent g n) u = adj_of g u"
  by (cases "map_of g u") (auto simp add: adj_of_def add_node_if_absent_def has_node_def map_add_def)

lemma map_of_add_edge:
  "map_of (add_edge g u v [(''predicate'', p)]) n =
     (if n = u then Some (AList.update v (AList.update ''predicate'' p (data_of g u v)) (adj_of g u))
      else map_of (add_node_if_absent (add_node_if_absent g u) v) n)"
proof -
  have "(case map_of (add_node_if_absent (add_node_if_absent g u) v) u of None \<Rightarrow> [] | Some a \<Rightarrow> a)
          = adj_of g u"
    using adj_of_add_node [of "add_node_if_absent g u" v u] adj_of_add_node [of g u u]
    by (simp add: adj_of_def)
  then show ?thesis
    by (simp add: add_edge_def Let_def update_conv' data_of_def)
qed

lemma keys_add_edge:
  "map fst (add_edge g u v attr) = map fst (add_node_if_absent (add_node_if_absent g u) v)"
  by (simp add: add_edge_def Let_def update_present_keys has_node_keys [symmetric] has_node_add_node)

lemma has_node_add_edge: "has_node (add_edge g u v attr) n = (has_node g n \<or> n = u \<or> n = v)"
  using keys_add_edge [of g u v attr]
  by (metis has_node_keys has_node_add_node list.set_map)

text \<open>Unique keys are an invariant of the graph: every \<open>add_edge\<close> keeps them.\<close>

lemma wf_graph_adj: "wf_graph g \<Longrightarrow> map_of g n = Some adj_n \<Longrightarrow> distinct (map fst adj_n)"
  by (auto simp add: wf_graph_def list_all_iff dest!: map_of_SomeD)

lemma wf_graph_add_node: "wf_graph g \<Longrightarrow> wf_graph (add_node_if_absent g n)"
  by (auto simp add: wf_graph_def add_node_if_absent_def has_node_keys)

lemma wf_graph_update:
  "wf_graph g \<Longrightarrow> distinct (map fst adj_n) \<Longrightarrow> wf_graph (AList.update n adj_n g)"
proof -
  have "list_all P g \<Longrightarrow> P (n, adj_n) \<Longrightarrow> list_all P (AList.update n adj_n g)" for P
    by (induction g) auto
  then show "wf_graph g \<Longrightarrow> distinct (map fst adj_n) \<Longrightarrow> wf_graph (AList.update n adj_n g)"
    by (simp add: wf_graph_def distinct_update)
qed

lemma wf_graph_add_edge: "wf_graph g \<Longrightarrow> wf_graph (add_edge g u v attr)"
proof -
  assume wf: "wf_graph g"
  define g2 where "g2 = add_node_if_absent (add_node_if_absent g u) v"
  define adj_u where "adj_u = (case map_of g2 u of None \<Rightarrow> [] | Some a \<Rightarrow> a)"
  have wf2: "wf_graph g2"
    using wf by (simp add: g2_def wf_graph_add_node)
  have "distinct (map fst adj_u)"
    using wf_graph_adj [OF wf2] by (auto simp add: adj_u_def split: option.splits)
  then have "\<And>d. distinct (map fst (AList.update v d adj_u))"
    by (simp add: distinct_update)
  with wf2 show ?thesis
    by (simp add: add_edge_def Let_def g2_def adj_u_def wf_graph_update)
qed

lemma wf_graph_load_triples: "wf_graph (graph e) \<Longrightarrow> wf_graph (graph (load_triples e triples))"
  by (induction e triples rule: load_triples.induct) (simp_all add: wf_graph_add_edge)

lemma wf_graph_loaded: "wf_graph (graph (load_triples \<lparr>graph = []\<rparr> triples))"
  by (rule wf_graph_load_triples) (simp add: wf_graph_def)

text \<open>
  Claim C8. Loading \<open>(s, p, ob)\<close> and then loading \<open>(s, p', ob)\<close> again with another
  predicate overwrites the predicate stored on the edge and creates no second edge: after
  the first load the edge carries \<open>p\<close>, after the second it carries \<open>p'\<close>; the second
  load changes neither the nodes nor the successors of any node, and \<open>ob\<close> occurs exactly
  once among the successors of \<open>s\<close>.
\<close>

theorem reload_overwrites_predicate:
  assumes "wf_graph (graph e)"
  shows "edge_predicate (graph (load_triples e [(s, p, ob)])) s ob = Some p \<and>
         edge_predicate (graph (load_triples (load_triples e [(s, p, ob)]) [(s, p', ob)])) s ob = Some p' \<and>
         map fst (graph (load_triples (load_triples e [(s, p, ob)]) [(s, p', ob)])) =
           map fst (graph (load_triples e [(s, p, ob)])) \<and>
         (\<forall>n. successors (graph (load_triples (load_triples e [(s, p, ob)]) [(s, p', ob)])) n =
              successors (graph (load_triples e [(s, p, ob)])) n) \<and>
         (\<exists>succs. successors (graph (load_triples (load_triples e [(s, p, ob)]) [(s, p', ob)])) s = Inr succs \<and>
                  count_list succs ob = 1)"
proof -
  define g1 where "g1 = add_edge (graph e) s ob [(''predicate'', p)]"
  define g2 where "g2 = add_edge g1 s ob [(''predicate'', p')]"
  define d1 where "d1 = AList.update ''predicate'' p (data_of (graph e) s ob)"
  define a1 where "a1 = AList.update ob d1 (adj_of (graph e) s)"
  have e1: "graph (load_triples e [(s, p, ob)]) = g1"
    by (simp add: g1_def)
  have e2: "graph (load_triples (load_triples e [(s, p, ob)]) [(s, p', ob)]) = g2"
    by (simp add: g1_def g2_def)
  have m1: "map_of g1 s = Some a1"
    by (simp add: g1_def map_of_add_edge a1_def d1_def)
  have adj1: "adj_of g1 s = a1"
    by (simp add: adj_of_def m1)
  have a1_ob: "map_of a1 ob = Some d1"
    by (simp add: a1_def update_conv')
  then have ob_in: "ob \<in> fst ` set a1"
    by (metis map_of_eq_None_iff option.distinct(1))
  have data1: "data_of g1 s ob = d1"
    by (simp add: data_of_def adj1 a1_ob)
  have nodes1: "has_node g1 s" "has_node g1 ob"
    by (simp_all add: g1_def has_node_add_edge)
  have m2: "\<And>n. map_of g2 n =
      (if n = s then Some (AList.update ob (AList.update ''predicate'' p' d1) a1) else map_of g1 n)"
    by (simp add: g2_def map_of_add_edge adj1 data1 nodes1 add_node_present)
  have p1: "edge_predicate g1 s ob = Some p"
    by (simp add: edge_predicate_def m1 a1_ob d1_def update_conv')
  have p2: "edge_predicate g2 s ob = Some p'"
    by (simp add: edge_predicate_def m2 update_conv')
  have keys: "map fst g2 = map fst g1"
    by (simp add: g2_def keys_add_edge nodes1 add_node_present)
  have same: "\<And>n. successors g2 n = successors g1 n"
    by (simp add: successors_def m2 m1 update_present_keys ob_in)
  have "distinct (map fst (adj_of (graph e) s))"
    using wf_graph_adj [OF assms, of s] by (auto simp add: adj_of_def split: option.splits)
  then have "distinct (map fst a1)"
    by (simp add: a1_def distinct_update)
  moreover have "successors g1 s = Inr (map fst a1)"
    by (simp add: successors_def m1)
  ultimately have one: "\<exists>succs. successors g2 s = Inr succs \<and> count_list succs ob = 1"
    using ob_in by (simp add: same count_list_distinct)
  from p1 p2 keys same one show ?thesis
    by (simp only: e1 e2) simp
qed

theorem reload_overwrites_predicate_witness:
  "wf_graph (graph \<lparr>graph = [(''A'', [(''C'', [])]), (''C'', [])]\<rparr>) \<and>
   edge_predicate (graph (load_triples (load_triples \<lparr>graph = [(''A'', [(''C'', [])]), (''C'', [])]\<rparr>
       [(''A'', ''r1'', ''B'')]) [(''A'', ''r2'', ''B'')])) ''A'' ''B'' = Some ''r2'' \<and>
   successors (graph (load_triples (load_triples \<lparr>graph = [(''A'', [(''C'', [])]), (''C'', [])]\<rparr>
       [(''A'', ''r1'', ''B'')]) [(''A'', ''r2'', ''B'')])) ''A'' = Inr [''C'', ''B'']"
proof -
  have h: "wf_graph (graph \<lparr>graph = [(''A'', [(''C'', [])]), (''C'', [])]\<rparr>)"
    by (simp add: wf_graph_def)
  have s: "successors (graph (load_triples (load_triples \<lparr>graph = [(''A'', [(''C'', [])]), (''C'', [])]\<rparr>
       [(''A'', ''r1'', ''B'')]) [(''A'', ''r2'', ''B'')])) ''A'' = Inr [''C'', ''B'']"
    by (simp add: add_edge_def add_node_if_absent_def has_node_def successors_def)
  show ?thesis
    using h s reload_overwrites_predicate [OF h, of "''A''" "''r1''" "''B''" "''r2''"] by simp
qed

section \<open>Toolbox\<close>

text \<open>
  Claim C4. For every name that is not in the registry, \<open>call\<close> fails with the lookup
  error of the toolbox (the specification's ToolNotFound is the \<open>KeyError\<close> that the
  code raises); for every registered name, \<open>call\<close> passes the arguments it was given
  to the registered operation and returns what the operation returns, unchanged. This
  holds in particular right after \<open>register\<close>.
\<close>

theorem call_dispatch:
  "(name \<notin> fst ` set (tools tb) \<longrightarrow>
      call tb name args kwargs = Inl (KeyError (''Tool '' @ name @ '' not registered''))) \<and>
   (map_of (tools tb) name = Some fn \<longrightarrow> call tb name args kwargs = fn args kwargs) \<and>
   call (register tb name fn) name args kwargs = fn args kwargs"
  by (simp add: call_def register_def update_conv' map_of_absent)

theorem call_dispatch_witness:
  "''y'' \<notin> fst ` set (tools \<lparr>tools = [(''x'', \<lambda>args kwargs. Inr (PyList args))]\<rparr>) \<and>
   call \<lparr>tools = [(''x'', \<lambda>args kwargs. Inr (PyList args))]\<rparr> ''y'' [PyInt 1] [] =
     Inl (KeyError ''Tool y not registered'') \<and>
   map_of (tools \<lparr>tools = [(''x'', \<lambda>args kwargs. Inr (PyList args))]\<rparr>) ''x'' =
     Some (\<lambda>args kwargs. Inr (PyList args)) \<and>
   call \<lparr>tools = [(''x'', \<lambda>args kwargs. Inr (PyList args))]\<rparr> ''x'' [PyInt 1] [] =
     Inr (PyList [PyInt 1])"
  using call_dispatch [of "''y''" "\<lparr>tools = [(''x'', \<lambda>args kwargs. Inr (PyList args))]\<rparr>"
                          "[PyInt 1]" "[]" "\<lambda>args kwargs. Inr (PyList args)"]
        call_dispatch [of "''x''" "\<lparr>tools = [(''x'', \<lambda>args kwargs. Inr (PyList args))]\<rparr>"
                          "[PyInt 1]" "[]" "\<lambda>args kwargs. Inr (PyList args)"]
  by simp

section \<open>Agent\<close>

text \<open>
  Claim C9. For every \<open>llm\<close> object without a \<open>generate\<close> attribute,
  \<open>plan(question)\<close> raises nothing and returns the empty plan, whose raw output is the
  string \<open>[]\<close> and whose list of steps is empty; and for every \<open>llm\<close>, a plan that
  \<open>plan\<close> returns has an empty list of steps.
\<close>

theorem plan_empty:
  "(llm a = None \<longrightarrow> plan a question = Inr \<lparr>raw = PyStr ''[]'', steps = []\<rparr>) \<and>
   (\<forall>p. plan a question = Inr p \<longrightarrow> steps p = [])"
  by (auto simp add: plan_def split: option.splits sum.splits)

theorem plan_empty_witness:
  "llm \<lparr>llm = None, toolbox = \<lparr>tools = []\<rparr>, executor = \<lparr>graph = []\<rparr>, memory = \<lparr>store = []\<rparr>\<rparr> = None \<and>
   plan \<lparr>llm = None, toolbox = \<lparr>tools = []\<rparr>, executor = \<lparr>graph = []\<rparr>, memory = \<lparr>store = []\<rparr>\<rparr> ''q'' =
     Inr \<lparr>raw = PyStr ''[]'', steps = []\<rparr> \<and>
   steps \<lparr>raw = PyStr ''[]'', steps = []\<rparr> = []"
  using plan_empty [of "\<lparr>llm = None, toolbox = \<lparr>tools = []\<rparr>, executor = \<lparr>graph = []\<rparr>, memory = \<lparr>store = []\<rparr>\<rparr>" "''q''"]
  by simp

text \<open>
  Claim C3. For every question and every \<open>max_iterations\<close>, once planning has returned
  a plan, a run whose selector stops at the first iteration returns \<open>None\<close>, invokes no
  tool and returns the agent as it was, so that nothing is written to memory and an empty
  memory stays empty. The \<open>select_tool\<close> that the class ships is such a selector, for
  every agent and plan.
\<close>

theorem immediate_stop:
  assumes "plan a question = Inr p" and "sel a p = None"
  shows "run_with sel a question max_iterations = (Inr PyNone, a, []) \<and>
         run a question max_iterations = (Inr PyNone, a, [])"
proof -
  have stop: "\<And>s is. s a p = None \<Longrightarrow>
      run_loop s p question is \<lparr>agent = a, result = PyNone, invocations = []\<rparr> =
        (None, \<lparr>agent = a, result = PyNone, invocations = []\<rparr>)"
  proof -
    fix s :: selector and "is" :: "nat list"
    assume "s a p = None"
    then show "run_loop s p question is \<lparr>agent = a, result = PyNone, invocations = []\<rparr> =
        (None, \<lparr>agent = a, result = PyNone, invocations = []\<rparr>)"
      by (cases "is") simp_all
  qed
  have "select_tool a p = None" by (simp add: select_tool_def)
  with assms stop show ?thesis
    by (simp add: run_def run_with_def)
qed

theorem immediate_stop_witness:
  "plan \<lparr>llm = Some (\<lambda>prompt. Inr (PyStr ''[]'')),
         toolbox = \<lparr>tools = [(''neighbors'', \<lambda>args kwargs. Inr (PyList args))]\<rparr>,
         executor = \<lparr>graph = []\<rparr>, memory = \<lparr>store = []\<rparr>\<rparr> ''Who?'' =
     Inr \<lparr>raw = PyStr ''[]'', steps = []\<rparr> \<and>
   select_tool \<lparr>llm = Some (\<lambda>prompt. Inr (PyStr ''[]'')),
         toolbox = \<lparr>tools = [(''neighbors'', \<lambda>args kwargs. Inr (PyList args))]\<rparr>,
         executor = \<lparr>graph = []\<rparr>, memory = \<lparr>store = []\<rparr>\<rparr> \<lparr>raw = PyStr ''[]'', steps = []\<rparr> = None \<and>
   run \<lparr>llm = Some (\<lambda>prompt. Inr (PyStr ''[]'')),
         toolbox = \<lparr>tools = [(''neighbors'', \<lambda>args kwargs. Inr (PyList args))]\<rparr>,
         executor = \<lparr>graph = []\<rparr>, memory = \<lparr>store = []\<rparr>\<rparr> ''Who?'' 10 =
     (Inr PyNone,
      \<lparr>llm = Some (\<lambda>prompt. Inr (PyStr ''[]'')),
         toolbox = \<lparr>tools = [(''neighbors'', \<lambda>args kwargs. Inr (PyList args))]\<rparr>,
         executor = \<lparr>graph = []\<rparr>, memory = \<lparr>store = []\<rparr>\<rparr>, [])"
proof -
  let ?a = "\<lparr>llm = Some (\<lambda>prompt. Inr (PyStr ''[]'')),
         toolbox = \<lparr>tools = [(''neighbors'', \<lambda>args kwargs. Inr (PyList args))]\<rparr>,
         executor = \<lparr>graph = []\<rparr>, memory = \<lparr>store = []\<rparr>\<rparr>"
  have h1: "plan ?a ''Who?'' = Inr \<lparr>raw = PyStr ''[]'', steps = []\<rparr>"
    by (simp add: plan_def)
  have h2: "select_tool ?a \<lparr>raw = PyStr ''[]'', steps = []\<rparr> = None"
    by (simp add: select_tool_def)
  show ?thesis
    using h1 h2 immediate_stop [where sel = select_tool and max_iterations = 10, OF h1 h2] by simp
qed

lemma upt_3: "[0..<nat 3] = [0, 1, 2]"
  by (simp add: upt_rec)

lemma step_keys:
  "''step_'' @ str_nat 0 = ''step_0''" "''step_'' @ str_nat 1 = ''step_1''"
  "''step_'' @ str_nat 2 = ''step_2''"
  by (simp_all add: str_nat.simps)

text \<open>One iteration that selects a tool which is registered and returns.\<close>

lemma run_loop_step:
  assumes "sel a p = Some name"
    and "call (toolbox a) name [PyStr question] [] = Inr out"
  shows "run_loop sel p question (i # is) \<lparr>agent = a, result = r, invocations = calls\<rparr> =
           run_loop sel p question is
             \<lparr>agent = update_memory a (''step_'' @ str_nat i) out,
              result = out,
              invocations = calls @ [(name, [PyStr question])]\<rparr>"
  using assms by (simp add: execute_tool_def)

lemma toolbox_update_memory: "toolbox (update_memory a key v) = toolbox a"
  by (simp add: update_memory_def)

text \<open>
  Claim C5. With \<open>max_iterations = 3\<close> and a selector that never stops, a run (whose
  planning returns, and whose selected tools are registered and return) makes exactly
  three tool invocations, each with the question as its argument, writes the three
  outputs to memory under the keys \<open>step_0\<close>, \<open>step_1\<close>, \<open>step_2\<close> in this order
  (these are the only entries when memory was empty before), and returns the output of
  the third invocation.
\<close>

theorem three_iterations:
  assumes planned: "plan a question = Inr p"
    and never_stops: "\<forall>a' p'. sel a' p' \<noteq> None"
    and tools_return: "\<forall>a' p' name. sel a' p' = Some name \<longrightarrow>
                         (\<exists>out. call (toolbox a) name [PyStr question] [] = Inr out)"
  shows "\<exists>n0 n1 n2 out0 out1 out2.
           run_with sel a question 3 =
             (Inr out2,
              update_memory (update_memory (update_memory a ''step_0'' out0) ''step_1'' out1) ''step_2'' out2,
              [(n0, [PyStr question]), (n1, [PyStr question]), (n2, [PyStr question])]) \<and>
           call (toolbox a) n0 [PyStr question] [] = Inr out0 \<and>
           call (toolbox a) n1 [PyStr question] [] = Inr out1 \<and>
           call (toolbox a) n2 [PyStr question] [] = Inr out2 \<and>
           (store (memory a) = [] \<longrightarrow>
              store (memory (update_memory (update_memory (update_memory a ''step_0'' out0) ''step_1'' out1) ''step_2'' out2)) =
                [(''step_0'', out0), (''step_1'', out1), (''step_2'', out2)])"
proof -
  obtain n0 where n0: "sel a p = Some n0"
    using never_stops by (meson option.exhaust)
  obtain out0 where out0: "call (toolbox a) n0 [PyStr question] [] = Inr out0"
    using tools_return n0 by blast
  define a1 where "a1 = update_memory a ''step_0'' out0"
  obtain n1 where n1: "sel a1 p = Some n1"
    using never_stops by (meson option.exhaust)
  obtain out1 where out1: "call (toolbox a) n1 [PyStr question] [] = Inr out1"
    using tools_return n1 by blast
  define a2 where "a2 = update_memory a1 ''step_1'' out1"
  obtain n2 where n2: "sel a2 p = Some n2"
    using never_stops by (meson option.exhaust)
  obtain out2 where out2: "call (toolbox a) n2 [PyStr question] [] = Inr out2"
    using tools_return n2 by blast
  define a3 where "a3 = update_memory a2 ''step_2'' out2"
  have out1': "call (toolbox a1) n1 [PyStr question] [] = Inr out1"
    using out1 by (simp add: a1_def toolbox_update_memory)
  have out2': "call (toolbox a2) n2 [PyStr question] [] = Inr out2"
    using out2 by (simp add: a1_def a2_def toolbox_update_memory)
  let ?q = "[PyStr question]"
  have s1: "run_loop sel p question [0, 1, 2] \<lparr>agent = a, result = PyNone, invocations = []\<rparr> =
            run_loop sel p question [1, 2] \<lparr>agent = a1, result = out0, invocations = [(n0, ?q)]\<rparr>"
    by (simp only: run_loop_step [where sel = sel and a = a and p = p, OF n0 out0]
                   step_keys a1_def append_Nil)
  have s2: "run_loop sel p question [1, 2] \<lparr>agent = a1, result = out0, invocations = [(n0, ?q)]\<rparr> =
            run_loop sel p question [2]
              \<lparr>agent = a2, result = out1, invocations = [(n0, ?q), (n1, ?q)]\<rparr>"
    using run_loop_step [where sel = sel and a = a1 and p = p, OF n1 out1',
                         of 1 "[2]" out0 "[(n0, ?q)]"]
    by (simp only: step_keys a2_def) (simp only: append_Cons append_Nil)
  have s3: "run_loop sel p question [2]
              \<lparr>agent = a2, result = out1, invocations = [(n0, ?q), (n1, ?q)]\<rparr> =
            (None, \<lparr>agent = a3, result = out2, invocations = [(n0, ?q), (n1, ?q), (n2, ?q)]\<rparr>)"
    using run_loop_step [where sel = sel and a = a2 and p = p, OF n2 out2',
                         of 2 "[]" out1 "[(n0, ?q), (n1, ?q)]"]
    by (simp only: step_keys a3_def) (simp only: append_Cons append_Nil run_loop.simps)
  have r: "run_with sel a question 3 = (Inr out2, a3, [(n0, ?q), (n1, ?q), (n2, ?q)])"
    by (simp only: run_with_def planned sum.case upt_3 s1 s2 s3) simp
  have m: "store (memory a) = [] \<longrightarrow>
             store (memory a3) = [(''step_0'', out0), (''step_1'', out1), (''step_2'', out2)]"
    by (simp add: a3_def a2_def a1_def update_memory_def write_memory_def)
  from r m out0 out1 out2 show ?thesis
    unfolding a3_def a2_def a1_def by blast
qed

theorem three_iterations_witness:
  "plan \<lparr>llm = None, toolbox = \<lparr>tools = [(''echo'', \<lambda>args kwargs. Inr (PyList args))]\<rparr>,
         executor = \<lparr>graph = []\<rparr>, memory = \<lparr>store = []\<rparr>\<rparr> ''q'' =
     Inr \<lparr>raw = PyStr ''[]'', steps = []\<rparr> \<and>
   (\<forall>a' p'. (\<lambda>a p. Some ''echo'') a' p' \<noteq> None) \<and>
   call \<lparr>tools = [(''echo'', \<lambda>args kwargs. Inr (PyList args))]\<rparr> ''echo'' [PyStr ''q''] [] =
     Inr (PyList [PyStr ''q'']) \<and>
   run_with (\<lambda>a p. Some ''echo'')
     \<lparr>llm = None, toolbox = \<lparr>tools = [(''echo'', \<lambda>args kwargs. Inr (PyList args))]\<rparr>,
      executor = \<lparr>graph = []\<rparr>, memory = \<lparr>store = []\<rparr>\<rparr> ''q'' 3 =
     (Inr (PyList [PyStr ''q'']),
      \<lparr>llm = None, toolbox = \<lparr>tools = [(''echo'', \<lambda>args kwargs. Inr (PyList args))]\<rparr>,
       executor = \<lparr>graph = []\<rparr>,
       memory = \<lparr>store = [(''step_0'', PyList [PyStr ''q'']), (''step_1'', PyList [PyStr ''q'']),
                          (''step_2'', PyList [PyStr ''q''])]\<rparr>\<rparr>,
      [(''echo'', [PyStr ''q'']), (''echo'', [PyStr ''q'']), (''echo'', [PyStr ''q''])])"
proof -
  let ?tb = "\<lparr>tools = [(''echo'', \<lambda>args kwargs. Inr (PyList args))]\<rparr>"
  let ?a = "\<lparr>llm = None, toolbox = ?tb, executor = \<lparr>graph = []\<rparr>, memory = \<lparr>store = []\<rparr>\<rparr>"
  let ?sel = "\<lambda>(a::KGAgent) (p::Plan). Some ''echo''"
  have h1: "plan ?a ''q'' = Inr \<lparr>raw = PyStr ''[]'', steps = []\<rparr>"
    by (simp add: plan_def)
  have h2: "\<forall>a' p'. ?sel a' p' \<noteq> None"
    by simp
  have c: "call ?tb ''echo'' [PyStr ''q''] [] = Inr (PyList [PyStr ''q''])"
    by (simp add: call_def)
  have h3: "\<forall>a' p' name. ?sel a' p' = Some name \<longrightarrow>
              (\<exists>out. call (toolbox ?a) name [PyStr ''q''] [] = Inr out)"
    using c by simp
  from three_iterations [where sel = ?sel, OF h1 h2 h3]
  obtain n0 n1 n2 out0 out1 out2 where
    r: "run_with ?sel ?a ''q'' 3 =
          (Inr out2,
           update_memory (update_memory (update_memory ?a ''step_0'' out0) ''step_1'' out1) ''step_2'' out2,
           [(n0, [PyStr ''q'']), (n1, [PyStr ''q'']), (n2, [PyStr ''q''])])"
    and c0: "call (toolbox ?a) n0 [PyStr ''q''] [] = Inr out0"
    and c1: "call (toolbox ?a) n1 [PyStr ''q''] [] = Inr out1"
    and c2: "call (toolbox ?a) n2 [PyStr ''q''] [] = Inr out2"
    by blast
  have only: "\<And>n out. call (toolbox ?a) n [PyStr ''q''] [] = Inr out \<Longrightarrow>
                n = ''echo'' \<and> out = PyList [PyStr ''q'']"
    by (auto simp add: call_def split: if_splits)
  from only [OF c0] only [OF c1] only [OF c2] r
  have "run_with ?sel ?a ''q'' 3 =
          (Inr (PyList [PyStr ''q'']),
           update_memory (update_memory (update_memory ?a ''step_0'' (PyList [PyStr ''q'']))
               ''step_1'' (PyList [PyStr ''q''])) ''step_2'' (PyList [PyStr ''q'']),
           [(''echo'', [PyStr ''q'']), (''echo'', [PyStr ''q'']), (''echo'', [PyStr ''q''])])"
    by simp
  with h1 h2 c show ?thesis
    by (simp add: update_memory_def write_memory_def)
qed

end
